theory Spec2Isabelle
  imports Main
begin

section \<open>The storefront's data\<close>

text \<open>
  The views of \<^verbatim>\<open>webapp/views.py\<close> work on three tables (Product, Order, OrderProduct),
  on the session of the request and on the user of the request. The tables are declared in
  \<^verbatim>\<open>webapp/models.py\<close>; their columns are those the views name.
\<close>

datatype error =
  Http404 | DoesNotExist | ValueError | KeyError | IntegrityError | NoReverseMatch
| DisallowedRedirect

text \<open>
  A Product row without its primary key; the table maps the key to the row. The price is a
  decimal, held here as its exact number of minor units.
\<close>

record product =
  name :: string
  category :: string
  price :: int
  photo :: string
  in_order :: bool

datatype order_status = New | Delivered | Canceled

record order =
  order_pk :: int
  user :: "int option"
  first_name :: string
  last_name :: string
  phone :: string
  email :: string
  status :: order_status
  created_at :: int

text \<open>
  An OrderProduct row: the key of its product, the key of its order and the amount. The
  column of the product holds the integer key, whatever string the view passed for it.
\<close>

record order_product =
  product_id :: int
  order_id :: int
  amount :: int

record db =
  product_tbl :: "int \<rightharpoonup> product"
  order_tbl :: "order list"
  order_product_tbl :: "order_product list"

text \<open>
  The two keys of the session the views use. A key that is absent is \<open>None\<close>. The basket is
  the list under \<^verbatim>\<open>'products'\<close>: the \<^verbatim>\<open>pk\<close> query parameters as they were received,
  which are strings.
\<close>

record session =
  products :: "string list option"
  products_count :: "int option"

definition empty_session :: session where
  "empty_session = \<lparr>products = None, products_count = None\<rparr>"

text \<open>\<^verbatim>\<open>request.session.get('products', [])\<close>\<close>

definition session_get_products :: "session \<Rightarrow> string list" where
  "session_get_products s = (case products s of None \<Rightarrow> [] | Some ps \<Rightarrow> ps)"

record auth_user =
  user_pk :: int
  perms :: "string list"

definition has_perm :: "auth_user \<Rightarrow> string \<Rightarrow> bool" where
  "has_perm u p = (p \<in> set (perms u))"

text \<open>An entry of the basket that is displayed: \<^verbatim>\<open>{'product': .., 'qty': .., 'total': ..}\<close>.\<close>

record basket_line =
  line_product :: product
  qty :: int
  total :: int

text \<open>
  A response is a redirect to a URL, or the page of the order form with the errors of the
  form and the two entries \<^verbatim>\<open>basket\<close> and \<^verbatim>\<open>basket_total\<close> that \<^verbatim>\<open>get_context_data\<close>
  puts into the context, or the answer 400 that a refused redirect is given.
\<close>

datatype response =
  Redirect string | RenderForm "string list" "basket_line list" int | BadRequest

text \<open>
  \<^verbatim>\<open>reverse('webapp:index')\<close>: the route \<^verbatim>\<open>''\<close> of \<^verbatim>\<open>webapp/urls.py\<close>, the application
  being mounted at the root.
\<close>

definition index_url :: string where
  "index_url = ''/''"

text \<open>
  \<^verbatim>\<open>redirect(to)\<close> first resolves its target: a relative URL is taken as it is; a name of
  a route is replaced by its URL; any other string is taken as a URL when it has a slash or a
  dot, and raises \<^verbatim>\<open>NoReverseMatch\<close> when it has neither. The names the project's URL
  configuration resolves are the parameter \<open>reverse\<close> (\<open>None\<close> is its \<^verbatim>\<open>NoReverseMatch\<close>).
\<close>

definition resolve_url :: "(string \<Rightarrow> string option) \<Rightarrow> string \<Rightarrow> error + string" where
  "resolve_url reverse to =
     (if take 2 to = ''./'' \<or> take 3 to = ''../'' then Inr to
      else case reverse to of
             Some url \<Rightarrow> Inr url
           | None \<Rightarrow>
               (if CHR ''/'' \<notin> set to \<and> CHR ''.'' \<notin> set to then Inl NoReverseMatch
                else Inr to))"

section \<open>Looking a product up\<close>

text \<open>
  A primary key arrives as a string and is turned into an integer by Python's \<^verbatim>\<open>int\<close>,
  which the views call themselves (\<^verbatim>\<open>int(pk)\<close>) and which the integer key field applies to
  a lookup value. The conversion is the parameter \<open>py_int\<close>; \<open>None\<close> is its
  \<^verbatim>\<open>ValueError\<close>.
\<close>

text \<open>
  \<^verbatim>\<open>get_object_or_404(Product, pk=pk)\<close> with the query parameter, which is \<open>None\<close> when the
  request has none: a lookup by \<open>None\<close> finds no row.
\<close>

definition get_object_or_404 ::
  "(string \<Rightarrow> int option) \<Rightarrow> db \<Rightarrow> string option \<Rightarrow> error + product" where
  "get_object_or_404 py_int d pk =
     (case pk of
        None \<Rightarrow> Inl Http404
      | Some k \<Rightarrow>
          (case py_int k of
             None \<Rightarrow> Inl ValueError
           | Some i \<Rightarrow>
               (case product_tbl d i of
                  None \<Rightarrow> Inl Http404
                | Some p \<Rightarrow> Inr p)))"

text \<open>\<^verbatim>\<open>Product.objects.get(pk=int(pk))\<close>\<close>

definition Product_objects_get ::
  "(string \<Rightarrow> int option) \<Rightarrow> db \<Rightarrow> string \<Rightarrow> error + product" where
  "Product_objects_get py_int d pk =
     (case py_int pk of
        None \<Rightarrow> Inl ValueError
      | Some i \<Rightarrow>
          (case product_tbl d i of
             None \<Rightarrow> Inl DoesNotExist
           | Some p \<Rightarrow> Inr p))"

section \<open>ProductDeleteView\<close>

text \<open>
  \<^verbatim>\<open>delete\<close>: \<^verbatim>\<open>get_object\<close> answers 404 when the key of the URL (an integer, by the
  route \<^verbatim>\<open>products/<int:pk>/delete/\<close>) has no row; otherwise the flag is cleared and the
  row saved under its key.
\<close>

definition ProductDeleteView_delete :: "db \<Rightarrow> int \<Rightarrow> error + db \<times> response" where
  "ProductDeleteView_delete d pk =
     (case product_tbl d pk of
        None \<Rightarrow> Inl Http404
      | Some p \<Rightarrow>
          Inr (d\<lparr>product_tbl := (product_tbl d)(pk \<mapsto> p\<lparr>in_order := False\<rparr>)\<rparr>,
               Redirect ''/''))"

section \<open>BasketChangeView\<close>

text \<open>
  The loop of the branch that removes: the first element equal to \<open>pk\<close> is removed from the
  list (\<^verbatim>\<open>list.remove\<close> takes out the first element equal to its argument) and the loop
  is left.
\<close>

fun remove_loop :: "string list \<Rightarrow> string option \<Rightarrow> string list \<Rightarrow> string list" where
  "remove_loop [] pk ps = ps"
| "remove_loop (product_pk # rest) pk ps =
     (if Some product_pk = pk then remove1 product_pk ps else remove_loop rest pk ps)"

text \<open>
  Then it builds \<^verbatim>\<open>HttpResponseRedirect(url)\<close>, which refuses a URL whose scheme is not
  \<^verbatim>\<open>http\<close>, \<^verbatim>\<open>https\<close> or \<^verbatim>\<open>ftp\<close> (\<^verbatim>\<open>DisallowedRedirect\<close>). The scheme is the one
  Python's \<^verbatim>\<open>urlparse\<close> gives the URL, and it is empty when the URL has none; it is the
  parameter \<open>url_scheme\<close>, whose error is the \<^verbatim>\<open>ValueError\<close> of a URL that cannot be parsed.
\<close>

definition HttpResponseRedirect :: "(string \<Rightarrow> error + string) \<Rightarrow> string \<Rightarrow> error + response" where
  "HttpResponseRedirect url_scheme url =
     (case url_scheme url of
        Inl e \<Rightarrow> Inl e
      | Inr scheme \<Rightarrow>
          (if scheme \<noteq> [] \<and> scheme \<notin> set [''http'', ''https'', ''ftp'']
           then Inl DisallowedRedirect else Inr (Redirect url)))"

definition redirect ::
  "(string \<Rightarrow> string option) \<Rightarrow> (string \<Rightarrow> error + string) \<Rightarrow> string \<Rightarrow> error + response" where
  "redirect reverse url_scheme to =
     (case resolve_url reverse to of
        Inl e \<Rightarrow> Inl e
      | Inr url \<Rightarrow> HttpResponseRedirect url_scheme url)"

text \<open>\<^verbatim>\<open>request.GET.get('next', reverse('webapp:index'))\<close>\<close>

definition next_url :: "string option \<Rightarrow> string" where
  "next_url nxt = (case nxt of None \<Rightarrow> index_url | Some u \<Rightarrow> u)"

text \<open>
  \<^verbatim>\<open>get\<close>, with the query parameters \<open>pk\<close>, \<open>action\<close> and \<open>next\<close>. The two keys of the
  session are assigned and then \<^verbatim>\<open>redirect(next_url)\<close> is built. A request that ends in an
  error is answered 500 without the session being saved, also when the error comes after the
  assignments: the session it leaves is the one it found. A refused redirect is the
  exception: it is answered 400, and the session is saved with the assignments. Where \<open>pk\<close>
  is appended the lookup has found a product, so \<open>pk\<close> is a string there.
\<close>

definition BasketChangeView_get ::
  "(string \<Rightarrow> int option) \<Rightarrow> (string \<Rightarrow> string option) \<Rightarrow> (string \<Rightarrow> error + string) \<Rightarrow>
     db \<Rightarrow> session \<Rightarrow> string option \<Rightarrow> string option \<Rightarrow> string option \<Rightarrow>
     error + session \<times> response" where
  "BasketChangeView_get py_int reverse url_scheme d s pk action nxt =
     (let ps = session_get_products s;
          store = (\<lambda>ps'.
            let s' = s\<lparr>products := Some ps', products_count := Some (int (length ps'))\<rparr>
            in case redirect reverse url_scheme (next_url nxt) of
                 Inr r \<Rightarrow> Inr (s', r)
               | Inl e \<Rightarrow> if e = DisallowedRedirect then Inr (s', BadRequest) else Inl e)
      in if action = Some ''add'' then
           (case get_object_or_404 py_int d pk of
              Inl e \<Rightarrow> Inl e
            | Inr p \<Rightarrow>
                (if in_order p
                 then store (ps @ (case pk of Some k \<Rightarrow> [k] | None \<Rightarrow> []))
                 else store ps))
         else store (remove_loop ps pk ps))"


section \<open>BasketView\<close>

text \<open>
  A Python dictionary keeps its keys in the order of their first insertion; it is a list of
  pairs here. \<open>dict_setitem\<close> is \<^verbatim>\<open>d[k] = v\<close>, \<open>dict_getitem\<close> is \<^verbatim>\<open>d[k]\<close>, which
  raises \<^verbatim>\<open>KeyError\<close> on an absent key.
\<close>

fun dict_setitem :: "'k \<Rightarrow> 'v \<Rightarrow> ('k \<times> 'v) list \<Rightarrow> ('k \<times> 'v) list" where
  "dict_setitem k v [] = [(k, v)]"
| "dict_setitem k v ((k', v') # d) =
     (if k' = k then (k, v) # d else (k', v') # dict_setitem k v d)"

definition dict_getitem :: "('k \<times> 'v) list \<Rightarrow> 'k \<Rightarrow> error + 'v" where
  "dict_getitem d k = (case map_of d k of None \<Rightarrow> Inl KeyError | Some v \<Rightarrow> Inr v)"

definition dict_contains :: "'k \<Rightarrow> ('k \<times> 'v) list \<Rightarrow> bool" where
  "dict_contains k d = (map_of d k \<noteq> None)"

text \<open>The loop of \<^verbatim>\<open>_get_totals\<close> over the basket, with the dictionary built so far.\<close>

fun totals_loop :: "string list \<Rightarrow> (string \<times> int) list \<Rightarrow> error + (string \<times> int) list" where
  "totals_loop [] totals = Inr totals"
| "totals_loop (product_pk # rest) totals =
     (let totals1 = (if \<not> dict_contains product_pk totals
                     then dict_setitem product_pk 0 totals else totals)
      in case dict_getitem totals1 product_pk of
           Inl e \<Rightarrow> Inl e
         | Inr v \<Rightarrow> totals_loop rest (dict_setitem product_pk (v + 1) totals1))"

definition BasketView_get_totals :: "session \<Rightarrow> error + (string \<times> int) list" where
  "BasketView_get_totals s = totals_loop (session_get_products s) []"

definition BasketView_basket_empty :: "session \<Rightarrow> bool" where
  "BasketView_basket_empty s = (length (session_get_products s) = 0)"

text \<open>
  The loop of \<^verbatim>\<open>_prepare_basket\<close> over the items of the totals, with the list and the sum
  built so far. A lookup that raises ends the computation.
\<close>

fun prepare_loop ::
  "(string \<Rightarrow> int option) \<Rightarrow> db \<Rightarrow> (string \<times> int) list \<Rightarrow> basket_line list \<Rightarrow> int \<Rightarrow>
     error + basket_line list \<times> int" where
  "prepare_loop py_int d [] basket basket_total = Inr (basket, basket_total)"
| "prepare_loop py_int d ((pk, q) # items) basket basket_total =
     (case Product_objects_get py_int d pk of
        Inl e \<Rightarrow> Inl e
      | Inr p \<Rightarrow>
          (let t = price p * q
           in prepare_loop py_int d items
                (basket @ [\<lparr>line_product = p, qty = q, total = t\<rparr>]) (basket_total + t)))"

definition BasketView_prepare_basket ::
  "(string \<Rightarrow> int option) \<Rightarrow> db \<Rightarrow> session \<Rightarrow> error + basket_line list \<times> int" where
  "BasketView_prepare_basket py_int d s =
     (case BasketView_get_totals s of
        Inl e \<Rightarrow> Inl e
      | Inr totals \<Rightarrow> prepare_loop py_int d totals [] 0)"

text \<open>
  \<^verbatim>\<open>OrderProduct.objects.create(product_id=pk, order=self.object, amount=qty)\<close>: the
  reference is converted to the integer key of the column (\<^verbatim>\<open>ValueError\<close> when it is no
  number), and the row is stored when the key has a Product row; the database refuses a key
  that has none (\<^verbatim>\<open>IntegrityError\<close>).
\<close>

definition OrderProduct_objects_create ::
  "(string \<Rightarrow> int option) \<Rightarrow> db \<Rightarrow> string \<Rightarrow> order \<Rightarrow> int \<Rightarrow> error + db" where
  "OrderProduct_objects_create py_int d pk object q =
     (case py_int pk of
        None \<Rightarrow> Inl ValueError
      | Some i \<Rightarrow>
          (case product_tbl d i of
             None \<Rightarrow> Inl IntegrityError
           | Some p \<Rightarrow>
               Inr (d\<lparr>order_product_tbl := order_product_tbl d @
                      [\<lparr>product_id = i, order_id = order_pk object, amount = q\<rparr>]\<rparr>)))"

text \<open>
  The loop of \<^verbatim>\<open>_save_order_products\<close>: one row is created for each item. A
  \<^verbatim>\<open>create\<close> that raises ends the loop; the rows stored before it stay, so the error comes
  with the tables as they are then.
\<close>

fun save_loop ::
  "(string \<Rightarrow> int option) \<Rightarrow> (string \<times> int) list \<Rightarrow> order \<Rightarrow> db \<Rightarrow> error \<times> db + db" where
  "save_loop py_int [] object d = Inr d"
| "save_loop py_int ((pk, q) # items) object d =
     (case OrderProduct_objects_create py_int d pk object q of
        Inl e \<Rightarrow> Inl (e, d)
      | Inr d' \<Rightarrow> save_loop py_int items object d')"

definition BasketView_save_order_products ::
  "(string \<Rightarrow> int option) \<Rightarrow> db \<Rightarrow> session \<Rightarrow> order \<Rightarrow> error \<times> db + db" where
  "BasketView_save_order_products py_int d s object =
     (case BasketView_get_totals s of
        Inl e \<Rightarrow> Inl (e, d)
      | Inr totals \<Rightarrow> save_loop py_int totals object d)"

definition BasketView_clean_basket :: "session \<Rightarrow> session" where
  "BasketView_clean_basket s =
     (let s1 = (if products s \<noteq> None then s\<lparr>products := None\<rparr> else s)
      in if products_count s1 \<noteq> None then s1\<lparr>products_count := None\<rparr> else s1)"

text \<open>The input of the order form: the contact fields.\<close>

record order_form =
  form_first_name :: string
  form_last_name :: string
  form_phone :: string
  form_email :: string

text \<open>The key the database gives the next Order row.\<close>

definition next_order_pk :: "db \<Rightarrow> int" where
  "next_order_pk d = fold max (map order_pk (order_tbl d)) 0 + 1"

text \<open>
  Modelled from the spec: \<^verbatim>\<open>BasketOrderCreateForm\<close> of \<^verbatim>\<open>webapp/forms.py\<close> is missing. Its
  \<^verbatim>\<open>save\<close>, which \<^verbatim>\<open>super().form_valid(form)\<close> calls, constructs the Order record from the
  form input, with the user of the request as its owner, and stores it; a new order has the
  status \<open>New\<close> and the time of its creation.
\<close>

definition form_save :: "int \<Rightarrow> db \<Rightarrow> auth_user \<Rightarrow> order_form \<Rightarrow> db \<times> order" where
  "form_save now d u form =
     (let object = \<lparr>order_pk = next_order_pk d, user = Some (user_pk u),
                    first_name = form_first_name form, last_name = form_last_name form,
                    phone = form_phone form, email = form_email form,
                    status = New, created_at = now\<rparr>
      in (d\<lparr>order_tbl := order_tbl d @ [object]\<rparr>, object))"

text \<open>
  What a request to the basket view that is answered leaves: the tables, the session, the
  messages shown to the user and the response. A request that ends in an error leaves the
  tables as they are when the error is raised, and the session it found, which is not saved.
  The texts of the source are Russian; they are given in English.
\<close>

record outcome =
  out_db :: db
  out_session :: session
  out_messages :: "string list"
  out_response :: response

definition empty_basket_error :: string where
  "empty_basket_error = ''The basket has no items!''"

definition order_placed :: string where
  "order_placed = ''The order is placed!''"

text \<open>
  \<^verbatim>\<open>form_invalid\<close> shows the form again with its errors. The page is rendered with the
  context of \<^verbatim>\<open>get_context_data\<close>, which calls \<^verbatim>\<open>_prepare_basket\<close>: an error of that
  computation ends the request. Nothing is written.
\<close>

definition form_invalid ::
  "(string \<Rightarrow> int option) \<Rightarrow> db \<Rightarrow> session \<Rightarrow> string list \<Rightarrow> error \<times> db + outcome" where
  "form_invalid py_int d s errors =
     (case BasketView_prepare_basket py_int d s of
        Inl e \<Rightarrow> Inl (e, d)
      | Inr (basket, basket_total) \<Rightarrow>
          Inr \<lparr>out_db = d, out_session = s, out_messages = [],
               out_response = RenderForm errors basket basket_total\<rparr>)"

text \<open>
  \<^verbatim>\<open>form_valid\<close>, which receives a form that has passed its validation. The Order is
  stored before the lines are; an error of a line leaves it stored, with the lines made
  before the error, and the basket is not cleaned.
\<close>

definition BasketView_form_valid ::
  "(string \<Rightarrow> int option) \<Rightarrow> int \<Rightarrow> db \<Rightarrow> session \<Rightarrow> auth_user \<Rightarrow> order_form \<Rightarrow>
     error \<times> db + outcome" where
  "BasketView_form_valid py_int now d s u form =
     (if BasketView_basket_empty s then form_invalid py_int d s [empty_basket_error]
      else
        (let (d1, object) = form_save now d u form;
             response = Redirect index_url
         in case BasketView_save_order_products py_int d1 s object of
              Inl (e, d2) \<Rightarrow> Inl (e, d2)
            | Inr d2 \<Rightarrow>
                Inr \<lparr>out_db = d2, out_session = BasketView_clean_basket s,
                     out_messages = [order_placed], out_response = response\<rparr>))"

text \<open>
  Modelled from the spec: the form class of \<^verbatim>\<open>webapp/forms.py\<close>, with its validation, is
  missing, and the \<^verbatim>\<open>post\<close> that runs it is the one the view inherits from \<^verbatim>\<open>CreateView\<close>.
  The form input is validated first; an input that is rejected goes to \<^verbatim>\<open>form_invalid\<close>, so
  that the steps of \<^verbatim>\<open>form_valid\<close> never run on it, and an input that passes goes to
  \<^verbatim>\<open>form_valid\<close>. The validation is the parameter \<open>validate\<close>, which gives the errors of an
  input.
\<close>

definition BasketView_post ::
  "(string \<Rightarrow> int option) \<Rightarrow> (order_form \<Rightarrow> string list) \<Rightarrow> int \<Rightarrow> db \<Rightarrow> session \<Rightarrow>
     auth_user \<Rightarrow> order_form \<Rightarrow> error \<times> db + outcome" where
  "BasketView_post py_int validate now d s u form =
     (let errors = validate form
      in if errors = [] then BasketView_form_valid py_int now d s u form
         else form_invalid py_int d s errors)"

text \<open>The tables and the session after a request to the basket view.\<close>

definition db_after :: "error \<times> db + outcome \<Rightarrow> db" where
  "db_after res = (case res of Inl (e, d) \<Rightarrow> d | Inr out \<Rightarrow> out_db out)"

definition session_after :: "session \<Rightarrow> error \<times> db + outcome \<Rightarrow> session" where
  "session_after s res = (case res of Inl x \<Rightarrow> s | Inr out \<Rightarrow> out_session out)"

section \<open>OrderListView\<close>

text \<open>
  \<^verbatim>\<open>order_by('-created_at')\<close>: the rows by falling time of creation. Rows of the same time
  keep the order they had.
\<close>

definition order_by_created_at_desc :: "order list \<Rightarrow> order list" where
  "order_by_created_at_desc os = sort_key (\<lambda>ob. - created_at ob) os"

text \<open>
  \<^verbatim>\<open>get_queryset\<close>. A query without \<^verbatim>\<open>order_by\<close> gives the rows in the default order of
  the model (\<^verbatim>\<open>Meta.ordering\<close> of \<^verbatim>\<open>webapp/models.py\<close>, or the order of the table when
  there is none), which is the parameter \<open>default_order\<close>. \<^verbatim>\<open>user.orders\<close> are the orders
  whose \<^verbatim>\<open>user\<close> is the user of the request.
\<close>

definition OrderListView_get_queryset ::
  "(order list \<Rightarrow> order list) \<Rightarrow> db \<Rightarrow> auth_user \<Rightarrow> order list" where
  "OrderListView_get_queryset default_order d u =
     (if has_perm u ''webapp.view_order''
      then order_by_created_at_desc (order_tbl d)
      else default_order (filter (\<lambda>ob. user ob = Some (user_pk u)) (order_tbl d)))"

section \<open>Sequences of basket changes\<close>

datatype basket_op = Add string | Remove string

text \<open>
  One request to \<^verbatim>\<open>basket/change/\<close> and the session after it. A request that is answered
  with an error leaves the session as it was.
\<close>

definition apply_op ::
  "(string \<Rightarrow> int option) \<Rightarrow> (string \<Rightarrow> string option) \<Rightarrow> (string \<Rightarrow> error + string) \<Rightarrow>
     db \<Rightarrow> session \<Rightarrow> basket_op \<Rightarrow> session" where
  "apply_op py_int reverse url_scheme d s opn =
     (case (case opn of
              Add k \<Rightarrow>
                BasketChangeView_get py_int reverse url_scheme d s (Some k) (Some ''add'') None
            | Remove k \<Rightarrow>
                BasketChangeView_get py_int reverse url_scheme d s (Some k) (Some ''remove'')
                  None) of
        Inl e \<Rightarrow> s
      | Inr (s', r) \<Rightarrow> s')"

definition run_ops ::
  "(string \<Rightarrow> int option) \<Rightarrow> (string \<Rightarrow> string option) \<Rightarrow> (string \<Rightarrow> error + string) \<Rightarrow>
     db \<Rightarrow> basket_op list \<Rightarrow> session \<Rightarrow> session" where
  "run_ops py_int reverse url_scheme d ops s = foldl (apply_op py_int reverse url_scheme d) s ops"

text \<open>The quantity \<^verbatim>\<open>_get_totals\<close> gives a reference; a reference it does not hold has 0.\<close>

definition aggregate_qty :: "session \<Rightarrow> string \<Rightarrow> error + int" where
  "aggregate_qty s k =
     (case BasketView_get_totals s of
        Inl e \<Rightarrow> Inl e
      | Inr totals \<Rightarrow> Inr (case map_of totals k of None \<Rightarrow> 0 | Some q \<Rightarrow> q))"


text \<open>
  The quantity of the reference \<open>k\<close> as the operations give it one after the other, from the
  quantity \<open>q\<close>: an \<open>Add\<close> of that reference adds 1 when its product can be bought, a
  \<open>Remove\<close> of that reference takes 1 away and stops at 0. A reference is the string that was
  sent: two spellings of one key are two references. \<open>ok\<close> says which references can be
  bought.
\<close>

fun replay_qty :: "(string \<Rightarrow> bool) \<Rightarrow> string \<Rightarrow> basket_op list \<Rightarrow> int \<Rightarrow> int" where
  "replay_qty ok k [] q = q"
| "replay_qty ok k (Add j # ops) q = replay_qty ok k ops (if j = k \<and> ok j then q + 1 else q)"
| "replay_qty ok k (Remove j # ops) q = replay_qty ok k ops (if j = k then max 0 (q - 1) else q)"

text \<open>Every \<open>Remove\<close> of the reference \<open>k\<close> comes when its quantity is not 0.\<close>

fun removes_found :: "(string \<Rightarrow> bool) \<Rightarrow> string \<Rightarrow> basket_op list \<Rightarrow> int \<Rightarrow> bool" where
  "removes_found ok k [] q = True"
| "removes_found ok k (Add j # ops) q =
     removes_found ok k ops (if j = k \<and> ok j then q + 1 else q)"
| "removes_found ok k (Remove j # ops) q =
     ((j = k \<longrightarrow> 0 < q) \<and> removes_found ok k ops (if j = k then max 0 (q - 1) else q))"

text \<open>A reference can be bought when its product is found and has the flag \<open>in_order\<close>.\<close>

definition purchasable :: "(string \<Rightarrow> int option) \<Rightarrow> db \<Rightarrow> string \<Rightarrow> bool" where
  "purchasable py_int d k =
     (case get_object_or_404 py_int d (Some k) of Inl e \<Rightarrow> False | Inr p \<Rightarrow> in_order p)"

text \<open>
  The quantity in the words of the specification: the number of \<open>Add\<close> calls less the number
  of \<open>Remove\<close> calls for the reference, and 0 when that is negative.
\<close>

definition spec_qty :: "basket_op list \<Rightarrow> string \<Rightarrow> int" where
  "spec_qty ops k = max 0 (int (count_list ops (Add k)) - int (count_list ops (Remove k)))"

text \<open>One step of the count: the value of the key, 0 when there is none, and 1 more.\<close>

definition tally_step :: "string \<Rightarrow> (string \<times> int) list \<Rightarrow> (string \<times> int) list" where
  "tally_step k t = dict_setitem k ((case map_of t k of None \<Rightarrow> 0 | Some v \<Rightarrow> v) + 1) t"

text \<open>The row a reference of the basket names now, if there is one.\<close>

definition product_row :: "(string \<Rightarrow> int option) \<Rightarrow> db \<Rightarrow> string \<Rightarrow> product option" where
  "product_row py_int d k = (case py_int k of None \<Rightarrow> None | Some i \<Rightarrow> product_tbl d i)"

section \<open>The count the session caches\<close>

text \<open>When the key \<^verbatim>\<open>'products_count'\<close> is there, it is the length of the list.\<close>

definition count_matches :: "session \<Rightarrow> bool" where
  "count_matches s =
     (case products_count s of
        None \<Rightarrow> True
      | Some c \<Rightarrow> (case products s of None \<Rightarrow> False | Some ps \<Rightarrow> c = int (length ps)))"

text \<open>
  The requests that write the basket: a change of the basket, with its three query
  parameters, and a checkout. \<open>serve\<close> gives the tables and the session after a request.
\<close>

datatype request =
  Change "string option" "string option" "string option"
| Checkout int auth_user order_form

fun serve ::
  "(string \<Rightarrow> int option) \<Rightarrow> (string \<Rightarrow> string option) \<Rightarrow> (string \<Rightarrow> error + string) \<Rightarrow>
     (order_form \<Rightarrow> string list) \<Rightarrow> db \<times> session \<Rightarrow> request \<Rightarrow> db \<times> session" where
  "serve py_int reverse url_scheme validate (d, s) (Change pk action nxt) =
     (case BasketChangeView_get py_int reverse url_scheme d s pk action nxt of
        Inl e \<Rightarrow> (d, s)
      | Inr (s', r) \<Rightarrow> (d, s'))"
| "serve py_int reverse url_scheme validate (d, s) (Checkout now u form) =
     (let res = BasketView_post py_int validate now d s u form
      in (db_after res, session_after s res))"

section \<open>A shop to compute with\<close>

text \<open>
  Python's \<^verbatim>\<open>int\<close> on a string of ASCII characters, in base 10: the blanks at both ends
  are dropped; a sign may come first; then come digits, between which single underscores may
  stand. Any other string is a \<^verbatim>\<open>ValueError\<close>. It is the conversion of the examples.
\<close>

definition digit_of :: "char \<Rightarrow> int option" where
  "digit_of c =
     map_of [(CHR ''0'', 0), (CHR ''1'', 1), (CHR ''2'', 2), (CHR ''3'', 3), (CHR ''4'', 4),
             (CHR ''5'', 5), (CHR ''6'', 6), (CHR ''7'', 7), (CHR ''8'', 8), (CHR ''9'', 9)] c"

definition is_space :: "char \<Rightarrow> bool" where
  "is_space c =
     (c \<in> set [CHR 0x09, CHR 0x0A, CHR 0x0B, CHR 0x0C, CHR 0x0D,
                CHR 0x1C, CHR 0x1D, CHR 0x1E, CHR 0x1F, CHR '' ''])"

definition strip :: "string \<Rightarrow> string" where
  "strip k = rev (dropWhile is_space (rev (dropWhile is_space k)))"

fun digits_value :: "string \<Rightarrow> int \<Rightarrow> int option" where
  "digits_value [] acc = Some acc"
| "digits_value (c # cs) acc =
     (if c = CHR ''_'' then
        (case cs of
           [] \<Rightarrow> None
         | c' # cs' \<Rightarrow> if c' = CHR ''_'' then None else digits_value cs acc)
      else
        (case digit_of c of None \<Rightarrow> None | Some v \<Rightarrow> digits_value cs (10 * acc + v)))"

definition unsigned_int :: "string \<Rightarrow> int option" where
  "unsigned_int k =
     (case k of [] \<Rightarrow> None | c # cs \<Rightarrow> if c = CHR ''_'' then None else digits_value k 0)"

definition decimal_int :: "string \<Rightarrow> int option" where
  "decimal_int k =
     (case strip k of
        [] \<Rightarrow> None
      | c # cs \<Rightarrow>
          if c = CHR ''-'' then map_option uminus (unsigned_int cs)
          else if c = CHR ''+'' then unsigned_int cs
          else unsigned_int (c # cs))"

text \<open>
  The names of \<^verbatim>\<open>webapp/urls.py\<close> that resolve without an argument, with their URLs; the
  other routes take a key.
\<close>

definition webapp_reverse :: "string \<Rightarrow> string option" where
  "webapp_reverse to =
     map_of [(''webapp:index'', ''/''), (''webapp:product_create'', ''/products/create/''),
             (''webapp:basket_change'', ''/basket/change/''), (''webapp:basket'', ''/basket/''),
             (''webapp:order_list'', ''/orders/''), (''webapp:order_create'', ''/order/create/'')]
       to"

text \<open>
  The scheme of a URL that has no authority part, as \<^verbatim>\<open>urlparse\<close> gives it: the characters
  before the first colon, in lower case, when there is one, they begin with a letter and are
  letters, digits, \<open>+\<close>, \<open>-\<close> and \<open>.\<close> only; no scheme otherwise. It is the parsing of the
  examples.
\<close>

definition lower_case :: "char \<Rightarrow> char" where
  "lower_case c =
     (case map_of (zip ''ABCDEFGHIJKLMNOPQRSTUVWXYZ'' ''abcdefghijklmnopqrstuvwxyz'') c of
        None \<Rightarrow> c
      | Some l \<Rightarrow> l)"

definition is_letter :: "char \<Rightarrow> bool" where
  "is_letter c = (lower_case c \<in> set ''abcdefghijklmnopqrstuvwxyz'')"

definition scheme_char :: "char \<Rightarrow> bool" where
  "scheme_char c = (is_letter c \<or> c \<in> set ''0123456789+-.'')"

definition path_scheme :: "string \<Rightarrow> error + string" where
  "path_scheme url =
     (case takeWhile (\<lambda>c. c \<noteq> CHR '':'') url of
        [] \<Rightarrow> Inr []
      | c # cs \<Rightarrow>
          if length (c # cs) < length url \<and> is_letter c \<and> list_all scheme_char cs
          then Inr (map lower_case (c # cs)) else Inr [])"

text \<open>Product 7 costs 10.00 and product 3 costs 5.00; both can be bought.\<close>

definition pizza :: product where
  "pizza = \<lparr>name = ''pizza'', category = ''food'', price = 1000, photo = ''p.png'',
            in_order = True\<rparr>"

definition cola :: product where
  "cola = \<lparr>name = ''cola'', category = ''drink'', price = 500, photo = ''c.png'',
           in_order = True\<rparr>"

definition shop :: db where
  "shop = \<lparr>product_tbl = [7 \<mapsto> pizza, 3 \<mapsto> cola], order_tbl = [], order_product_tbl = []\<rparr>"

definition customer :: auth_user where
  "customer = \<lparr>user_pk = 1, perms = []\<rparr>"

definition contact :: order_form where
  "contact = \<lparr>form_first_name = ''Ann'', form_last_name = ''Lee'',
              form_phone = ''555'', form_email = ''ann@example.org''\<rparr>"

text \<open>A validation that asks for a first name.\<close>

definition needs_first_name :: "order_form \<Rightarrow> string list" where
  "needs_first_name form =
     (if form_first_name form = [] then [''first_name is required''] else [])"

text \<open>The basket of the session holds the references 7, 7 and 3.\<close>

definition basket773 :: session where
  "basket773 = \<lparr>products = Some [''7'', ''7'', ''3''], products_count = Some 3\<rparr>"

text \<open>
  Three orders: two of user 1, made at the times 10 and 20, and one of user 2. The manager
  may see every order.
\<close>

definition order_at :: "int \<Rightarrow> int \<Rightarrow> int \<Rightarrow> order" where
  "order_at k owner t =
     \<lparr>order_pk = k, user = Some owner, first_name = ''Ann'', last_name = ''Lee'',
      phone = ''555'', email = ''ann@example.org'', status = New, created_at = t\<rparr>"

definition three_orders :: db where
  "three_orders = shop\<lparr>order_tbl := [order_at 1 1 10, order_at 2 1 20, order_at 3 2 30]\<rparr>"

definition manager :: auth_user where
  "manager = \<lparr>user_pk = 9, perms = [''webapp.view_order'']\<rparr>"

section \<open>Facts about the dictionary and the loops\<close>

text \<open>Storing under a key changes the value of that key; a new key goes to the end.\<close>

lemma map_of_setitem: "map_of (dict_setitem k v d) = (map_of d)(k \<mapsto> v)"
  by (induction d) (auto simp: fun_eq_iff)

lemma keys_setitem:
  "map fst (dict_setitem k v d) = (if k \<in> set (map fst d) then map fst d else map fst d @ [k])"
proof (induction d)
  case Nil
  show ?case by simp
next
  case (Cons p d)
  obtain j w where p: "p = (j, w)" by (cases p)
  show ?case
    using Cons.IH by (cases "j = k") (simp_all add: p)
qed

text \<open>
  The two statements of the loop of \<^verbatim>\<open>_get_totals\<close> are one step of the count, and the
  read between them never raises.
\<close>

lemma totals_step:
  "(let totals1 = (if \<not> dict_contains k t then dict_setitem k 0 t else t)
    in case dict_getitem totals1 k of Inl e \<Rightarrow> Inl e
       | Inr v \<Rightarrow> f (dict_setitem k (v + 1) totals1)) = f (tally_step k t)"
proof (cases "map_of t k")
  case None
  have "dict_setitem k (1::int) (dict_setitem k 0 t) = dict_setitem k 1 t"
    by (induction t) auto
  with None show ?thesis
    by (simp add: dict_contains_def dict_getitem_def tally_step_def map_of_setitem)
next
  case (Some v)
  then show ?thesis
    by (simp add: dict_contains_def dict_getitem_def tally_step_def)
qed

lemma totals_loop_fold: "totals_loop ps t = Inr (fold tally_step ps t)"
proof (induction ps arbitrary: t)
  case Nil
  show ?case by simp
next
  case (Cons k ps)
  show ?case
    unfolding totals_loop.simps fold_Cons comp_apply
    using totals_step [of k t "totals_loop ps"] Cons.IH by simp
qed

lemma map_of_tally_step:
  "map_of (tally_step k t) j =
     (if j = k then Some ((case map_of t k of None \<Rightarrow> 0 | Some v \<Rightarrow> v) + 1) else map_of t j)"
  by (simp add: tally_step_def map_of_setitem)

lemma keys_tally_step:
  "map fst (tally_step k t) = (if k \<in> set (map fst t) then map fst t else map fst t @ [k])"
  by (simp add: tally_step_def keys_setitem)

lemma distinct_fold_tally:
  "distinct (map fst t) \<Longrightarrow> distinct (map fst (fold tally_step ps t))"
  by (induction ps arbitrary: t) (auto simp: keys_tally_step)

lemma set_keys_tally_step: "set (map fst (tally_step k t)) = insert k (set (map fst t))"
  by (auto simp: keys_tally_step)

lemma keys_fold_tally:
  "set (map fst (fold tally_step ps t)) = set (map fst t) \<union> set ps"
proof (induction ps arbitrary: t)
  case Nil
  show ?case by simp
next
  case (Cons k ps)
  have "set (map fst (fold tally_step (k # ps) t)) = set (map fst (tally_step k t)) \<union> set ps"
    using Cons.IH [of "tally_step k t"] by simp
  then show ?case
    unfolding set_keys_tally_step by auto
qed

lemma map_of_fold_tally:
  "map_of (fold tally_step ps t) j =
     (if j \<in> set ps
      then Some ((case map_of t j of None \<Rightarrow> 0 | Some v \<Rightarrow> v) + int (count_list ps j))
      else map_of t j)"
  by (induction ps arbitrary: t) (auto simp: map_of_tally_step)

lemma get_totals_eq:
  "BasketView_get_totals s = Inr (fold tally_step (session_get_products s) [])"
  by (simp add: BasketView_get_totals_def totals_loop_fold)

text \<open>
  What \<^verbatim>\<open>_get_totals\<close> returns: every reference of the basket once, with the number of
  times the basket holds it.
\<close>

lemma totals_entries:
  assumes "BasketView_get_totals s = Inr totals"
  shows "distinct (map fst totals)"
    and "set (map fst totals) = set (session_get_products s)"
    and "\<forall>e \<in> set totals. snd e = int (count_list (session_get_products s) (fst e))"
proof -
  let ?ps = "session_get_products s"
  from assms have t: "totals = fold tally_step ?ps []"
    by (simp add: get_totals_eq)
  show d: "distinct (map fst totals)"
    unfolding t by (rule distinct_fold_tally) simp
  show k: "set (map fst totals) = set ?ps"
    unfolding t using keys_fold_tally [of ?ps "[]"] by simp
  show "\<forall>e \<in> set totals. snd e = int (count_list ?ps (fst e))"
  proof
    fix e assume e: "e \<in> set totals"
    then have "fst e \<in> set ?ps" using k by force
    moreover have "map_of totals (fst e) = Some (snd e)"
      using e d by (simp add: map_of_eq_Some_iff)
    ultimately show "snd e = int (count_list ?ps (fst e))"
      unfolding t by (simp add: map_of_fold_tally)
  qed
qed

lemma aggregate_qty_count:
  "aggregate_qty s k = Inr (int (count_list (session_get_products s) k))"
  by (simp add: aggregate_qty_def get_totals_eq map_of_fold_tally count_list_0_iff)

text \<open>
  The tables a line is stored into differ from the ones before only in the lines, so the
  product a reference names stays the same along the loop.
\<close>

lemma product_row_lines [simp]:
  "product_row py_int (d\<lparr>order_product_tbl := rows\<rparr>) k = product_row py_int d k"
  by (simp add: product_row_def split: option.splits)

lemma create_row:
  "product_row py_int d k = Some p \<Longrightarrow>
   OrderProduct_objects_create py_int d k ob q =
     Inr (d\<lparr>order_product_tbl := order_product_tbl d @
            [\<lparr>product_id = the (py_int k), order_id = order_pk ob, amount = q\<rparr>]\<rparr>)"
  by (auto simp: product_row_def OrderProduct_objects_create_def split: option.splits)

text \<open>
  When every item names a row, \<^verbatim>\<open>_save_order_products\<close> adds one line for each item, in
  the order of the items.
\<close>

lemma save_loop_tbl:
  "\<forall>e \<in> set items. product_row py_int d (fst e) \<noteq> None \<Longrightarrow>
   save_loop py_int items ob d =
     Inr (d\<lparr>order_product_tbl := order_product_tbl d @
            map (\<lambda>(k, q). \<lparr>product_id = the (py_int k), order_id = order_pk ob, amount = q\<rparr>)
              items\<rparr>)"
proof (induction items arbitrary: d)
  case Nil
  show ?case by simp
next
  case (Cons e items)
  obtain k q where e: "e = (k, q)" by (cases e)
  from Cons.prems e obtain p where p: "product_row py_int d k = Some p" by auto
  let ?d = "d\<lparr>order_product_tbl := order_product_tbl d @
      [\<lparr>product_id = the (py_int k), order_id = order_pk ob, amount = q\<rparr>]\<rparr>"
  from Cons.prems have "\<forall>e \<in> set items. product_row py_int ?d (fst e) \<noteq> None" by simp
  from Cons.IH [OF this] show ?case
    by (simp add: e create_row [OF p])
qed

text \<open>The loop that removes takes out the first reference equal to \<open>pk\<close>, if there is one.\<close>

lemma remove_loop_eq:
  "remove_loop xs (Some k) ps = (if k \<in> set xs then remove1 k ps else ps)"
  by (induction xs) auto

lemma remove_loop_None: "remove_loop xs None ps = ps"
  by (induction xs) auto

lemma products_after_change:
  "BasketChangeView_get py_int reverse url_scheme d s pk action nxt = Inr (s', r) \<Longrightarrow>
     products s' = Some (session_get_products s') \<and>
     products_count s' = Some (int (length (session_get_products s')))"
  by (auto simp: BasketChangeView_get_def session_get_products_def Let_def
           split: if_splits sum.splits)

text \<open>
  The requests of a sequence of operations have no \<open>next\<close>: they are answered when the
  redirect to the index is.
\<close>

lemma apply_op_Add:
  "redirect reverse url_scheme (next_url None) = Inr r0 \<Longrightarrow>
   session_get_products (apply_op py_int reverse url_scheme d s (Add j)) =
     (if purchasable py_int d j then session_get_products s @ [j] else session_get_products s)"
  by (auto simp: apply_op_def BasketChangeView_get_def purchasable_def Let_def
        session_get_products_def split: sum.splits option.splits)

lemma apply_op_Remove:
  "redirect reverse url_scheme (next_url None) = Inr r0 \<Longrightarrow>
   session_get_products (apply_op py_int reverse url_scheme d s (Remove j)) =
     remove1 j (session_get_products s)"
proof -
  assume "redirect reverse url_scheme (next_url None) = Inr r0"
  moreover have "remove_loop ps (Some j) ps = remove1 j ps" for ps
    by (simp add: remove_loop_eq remove1_idem)
  ultimately show ?thesis
    by (simp add: apply_op_def BasketChangeView_get_def Let_def session_get_products_def)
qed

lemma count_list_remove1:
  "int (count_list (remove1 j ps) k) =
     (if j = k then max 0 (int (count_list ps k) - 1) else int (count_list ps k))"
  by (induction ps) auto

lemma qty_after_op:
  "redirect reverse url_scheme (next_url None) = Inr r0 \<Longrightarrow>
   int (count_list (session_get_products (apply_op py_int reverse url_scheme d s opn)) k) =
     replay_qty (purchasable py_int d) k [opn] (int (count_list (session_get_products s) k))"
  by (cases opn) (auto simp: apply_op_Add apply_op_Remove count_list_remove1)

lemma qty_after_run:
  assumes "redirect reverse url_scheme (next_url None) = Inr r0"
  shows "int (count_list (session_get_products (run_ops py_int reverse url_scheme d ops s)) k) =
     replay_qty (purchasable py_int d) k ops (int (count_list (session_get_products s) k))"
proof (induction ops arbitrary: s)
  case Nil
  show ?case by (simp add: run_ops_def)
next
  case (Cons opn ops)
  have "run_ops py_int reverse url_scheme d (opn # ops) s =
      run_ops py_int reverse url_scheme d ops (apply_op py_int reverse url_scheme d s opn)"
    by (simp add: run_ops_def)
  then show ?case
    using Cons.IH [of "apply_op py_int reverse url_scheme d s opn"]
      qty_after_op [OF assms, of py_int d s opn k]
    by (cases opn) auto
qed

lemma replay_qty_nonneg: "0 \<le> q \<Longrightarrow> 0 \<le> replay_qty ok k ops q"
  by (induction ok k ops q rule: replay_qty.induct) auto

lemma replay_qty_found:
  "removes_found ok k ops q \<Longrightarrow> ok k \<or> count_list ops (Add k) = 0 \<Longrightarrow>
     replay_qty ok k ops q = q + int (count_list ops (Add k)) - int (count_list ops (Remove k))"
  by (induction ok k ops q rule: replay_qty.induct) (auto split: if_splits)

text \<open>The session after a checkout, and the cached count along a sequence of requests.\<close>

lemma clean_basket_keys:
  "products (BasketView_clean_basket s) = None \<and> products_count (BasketView_clean_basket s) = None"
  by (simp add: BasketView_clean_basket_def Let_def)

text \<open>
  What a checkout that is answered leaves in the session: a redirect comes only from the
  branch that cleans the basket, and the page of the form only from \<^verbatim>\<open>form_invalid\<close>, which
  writes nothing.
\<close>

lemma form_invalid_answer:
  "form_invalid py_int d s errors = Inr out \<Longrightarrow>
     out_db out = d \<and> out_session out = s \<and>
     (\<exists>b t. out_response out = RenderForm errors b t)"
  by (auto simp: form_invalid_def split: sum.splits)

lemma form_invalid_error: "form_invalid py_int d s errors = Inl (e, d') \<Longrightarrow> d' = d"
  by (auto simp: form_invalid_def split: sum.splits)

lemma post_redirect:
  assumes "BasketView_post py_int validate now d s u form = Inr out"
    and "out_response out = Redirect url"
  shows "out_session out = BasketView_clean_basket s"
proof (cases "validate form = [] \<and> \<not> BasketView_basket_empty s")
  case True
  with assms(1) show ?thesis
    by (auto simp: BasketView_post_def BasketView_form_valid_def Let_def
          split: sum.splits prod.splits)
next
  case False
  then have "\<exists>errors. form_invalid py_int d s errors = Inr out"
    using assms(1)
    by (auto simp: BasketView_post_def BasketView_form_valid_def Let_def split: if_splits)
  then show ?thesis
    using assms(2) form_invalid_answer by fastforce
qed

lemma post_render:
  assumes "BasketView_post py_int validate now d s u form = Inr out"
    and "out_response out = RenderForm errors b t"
  shows "out_session out = s \<and> out_db out = d"
proof (cases "validate form = [] \<and> \<not> BasketView_basket_empty s")
  case True
  with assms show ?thesis
    by (auto simp: BasketView_post_def BasketView_form_valid_def Let_def index_url_def
          split: sum.splits prod.splits)
next
  case False
  then have "\<exists>errors. form_invalid py_int d s errors = Inr out"
    using assms(1)
    by (auto simp: BasketView_post_def BasketView_form_valid_def Let_def split: if_splits)
  then show ?thesis
    using form_invalid_answer by blast
qed

lemma post_answer:
  "BasketView_post py_int validate now d s u form = Inr out \<Longrightarrow> out_response out \<noteq> BadRequest"
  by (auto simp: BasketView_post_def BasketView_form_valid_def form_invalid_def Let_def
        split: if_splits sum.splits prod.splits)

lemma post_session:
  "session_after s (BasketView_post py_int validate now d s u form) = s \<or>
   session_after s (BasketView_post py_int validate now d s u form) = BasketView_clean_basket s"
proof (cases "BasketView_post py_int validate now d s u form")
  case (Inl x)
  then show ?thesis by (simp add: session_after_def)
next
  case (Inr out)
  show ?thesis
  proof (cases "out_response out")
    case (Redirect url)
    from post_redirect [OF Inr this] Inr show ?thesis by (simp add: session_after_def)
  next
    case (RenderForm errors b t)
    from post_render [OF Inr this] Inr show ?thesis by (simp add: session_after_def)
  next
    case BadRequest
    with Inr post_answer show ?thesis by blast
  qed
qed

lemma count_matches_serve:
  "count_matches (snd c) \<Longrightarrow>
     count_matches (snd (serve py_int reverse url_scheme validate c req))"
proof (cases c)
  case (Pair d s)
  assume inv: "count_matches (snd c)"
  show ?thesis
  proof (cases req)
    case (Change pk action nxt)
    show ?thesis
    proof (cases "BasketChangeView_get py_int reverse url_scheme d s pk action nxt")
      case (Inl e)
      with inv Pair Change show ?thesis by simp
    next
      case (Inr sr)
      obtain s' r where sr: "sr = (s', r)" by (cases sr)
      from products_after_change [of py_int reverse url_scheme d s pk action nxt s' r] Inr sr
      have "count_matches s'"
        by (auto simp: count_matches_def)
      with Pair Change Inr sr show ?thesis by simp
    qed
  next
    case (Checkout now u form)
    let ?s = "session_after s (BasketView_post py_int validate now d s u form)"
    consider "?s = s" | "?s = BasketView_clean_basket s"
      using post_session [of s py_int validate now d u form] by blast
    then have "count_matches ?s"
    proof cases
      case 1
      with inv Pair show ?thesis by simp
    next
      case 2
      with clean_basket_keys [of s] show ?thesis by (simp add: count_matches_def)
    qed
    with Pair Checkout show ?thesis by (simp add: Let_def)
  qed
qed

lemma count_matches_foldl:
  "count_matches (snd c) \<Longrightarrow>
     count_matches (snd (foldl (serve py_int reverse url_scheme validate) c reqs))"
  by (induction reqs arbitrary: c) (auto simp: count_matches_serve)

text \<open>
  A basket change appends a reference only after the lookup has converted it to a key, so the
  references of a basket all convert.
\<close>

lemma change_keeps_convertible:
  assumes "BasketChangeView_get py_int reverse url_scheme d s pk action nxt = Inr (s', r)"
    and "\<forall>j \<in> set (session_get_products s). py_int j \<noteq> None"
  shows "\<forall>j \<in> set (session_get_products s'). py_int j \<noteq> None"
proof -
  have "set (remove_loop xs pk ps) \<subseteq> set ps" for xs ps
  proof (cases pk)
    case None
    then show ?thesis by (simp add: remove_loop_None)
  next
    case (Some k)
    then show ?thesis
      using set_remove1_subset [of k ps] by (simp add: remove_loop_eq)
  qed
  then have "set (remove_loop (session_get_products s) pk (session_get_products s))
      \<subseteq> set (session_get_products s)" .
  with assms show ?thesis
    by (auto simp: BasketChangeView_get_def get_object_or_404_def Let_def
          session_get_products_def split: if_splits sum.splits option.splits)
qed

text \<open>The key of a new order is the key of no order of the table.\<close>

lemma fold_max_ge: "(x::int) \<in> set xs \<Longrightarrow> x \<le> fold max xs a"
proof (induction xs arbitrary: a)
  case Nil
  then show ?case by simp
next
  case (Cons y ys)
  have mono: "a \<le> fold max ys a" for a :: int
    by (induction ys arbitrary: a) (auto intro: order_trans [OF max.cobounded2])
  show ?case
  proof (cases "x = y")
    case True
    then show ?thesis
      using mono [of "max y a"] by simp
  next
    case False
    with Cons show ?thesis by simp
  qed
qed

lemma next_order_pk_fresh: "next_order_pk d \<notin> set (map order_pk (order_tbl d))"
proof
  assume "next_order_pk d \<in> set (map order_pk (order_tbl d))"
  from fold_max_ge [OF this, of 0] show False
    by (simp add: next_order_pk_def)
qed

text \<open>The loop of \<^verbatim>\<open>_prepare_basket\<close>: when every row is found, and when one is not.\<close>

lemma get_row:
  "product_row py_int d k = Some p \<Longrightarrow> Product_objects_get py_int d k = Inr p"
  by (auto simp: product_row_def Product_objects_get_def split: option.splits)

lemma prepare_loop_total:
  "\<forall>e \<in> set items. product_row py_int d (fst e) \<noteq> None \<Longrightarrow>
   prepare_loop py_int d items basket t =
     Inr (basket @ map (\<lambda>(k, q). \<lparr>line_product = the (product_row py_int d k), qty = q,
                          total = price (the (product_row py_int d k)) * q\<rparr>) items,
          t + sum_list (map (\<lambda>(k, q). price (the (product_row py_int d k)) * q) items))"
proof (induction items arbitrary: basket t)
  case Nil
  show ?case by simp
next
  case (Cons e items)
  obtain k q where e: "e = (k, q)" by (cases e)
  from Cons.prems e obtain p where p: "product_row py_int d k = Some p" by auto
  from Cons.prems have rest: "\<forall>e \<in> set items. product_row py_int d (fst e) \<noteq> None" by simp
  show ?case
    by (simp add: e get_row [OF p] p Cons.IH [OF rest] Let_def)
qed

lemma prepare_loop_missing:
  "\<forall>e \<in> set items. py_int (fst e) \<noteq> None \<Longrightarrow>
   \<exists>e \<in> set items. product_row py_int d (fst e) = None \<Longrightarrow>
   prepare_loop py_int d items basket t = Inl DoesNotExist"
proof (induction items arbitrary: basket t)
  case Nil
  then show ?case by simp
next
  case (Cons e items)
  obtain k q where e: "e = (k, q)" by (cases e)
  from Cons.prems(1) e obtain i where i: "py_int k = Some i" by auto
  show ?case
  proof (cases "product_tbl d i")
    case None
    with i show ?thesis by (simp add: e Product_objects_get_def)
  next
    case (Some p)
    with i Cons.prems(2) e have "\<exists>e \<in> set items. product_row py_int d (fst e) = None"
      by (auto simp: product_row_def)
    moreover from Cons.prems(1) have "\<forall>e \<in> set items. py_int (fst e) \<noteq> None" by simp
    ultimately show ?thesis
      using Cons.IH i Some by (simp add: e Product_objects_get_def Let_def)
  qed
qed

lemma prepare_loop_same_prices:
  "\<forall>i. map_option price (product_tbl d' i) = map_option price (product_tbl d i) \<Longrightarrow>
   prepare_loop py_int d items basket t = Inr (b, g) \<Longrightarrow>
   \<exists>b'. prepare_loop py_int d' items basket' t = Inr (b', g)"
proof (induction items arbitrary: basket basket' t)
  case Nil
  then show ?case by simp
next
  case (Cons e items)
  obtain k q where e: "e = (k, q)" by (cases e)
  from Cons.prems(2) e obtain i p where i: "py_int k = Some i" and p: "product_tbl d i = Some p"
    by (auto simp: Product_objects_get_def split: option.splits)
  from Cons.prems(1) p obtain p' where p': "product_tbl d' i = Some p'" and pr: "price p' = price p"
    by (metis map_option_eq_Some option.simps(9))
  from Cons.prems(2) have
    "prepare_loop py_int d items (basket @ [\<lparr>line_product = p, qty = q, total = price p * q\<rparr>])
       (t + price p * q) = Inr (b, g)"
    by (simp add: e i p Product_objects_get_def Let_def)
  from Cons.IH [OF Cons.prems(1) this] show ?case
    by (simp add: e i p' pr Product_objects_get_def Let_def)
qed

lemma prepare_empty:
  "session_get_products s = [] \<Longrightarrow> BasketView_prepare_basket py_int d s = Inr ([], 0)"
  by (simp add: BasketView_prepare_basket_def BasketView_get_totals_def)

text \<open>The definitions that the examples unfold.\<close>

lemmas shop_simps = decimal_int_def strip_def is_space_def unsigned_int_def digit_of_def
  shop_def pizza_def cola_def empty_session_def session_get_products_def
  BasketChangeView_get_def get_object_or_404_def resolve_url_def next_url_def index_url_def
  redirect_def HttpResponseRedirect_def path_scheme_def lower_case_def is_letter_def
  scheme_char_def webapp_reverse_def apply_op_def run_ops_def aggregate_qty_def BasketView_get_totals_def
  dict_contains_def dict_getitem_def spec_qty_def purchasable_def Let_def basket773_def
  customer_def contact_def needs_first_name_def BasketView_post_def
  BasketView_form_valid_def BasketView_basket_empty_def form_save_def next_order_pk_def
  BasketView_save_order_products_def OrderProduct_objects_create_def
  BasketView_clean_basket_def form_invalid_def BasketView_prepare_basket_def
  Product_objects_get_def count_matches_def ProductDeleteView_delete_def product_row_def
  db_after_def session_after_def three_orders_def manager_def order_at_def
  OrderListView_get_queryset_def has_perm_def order_by_created_at_desc_def

section \<open>Checkout\<close>

text \<open>
  Claim C1, as amended. A checkout with a basket that is not empty, a form that passes its
  validation and references that all name a Product row is answered with the redirect. It
  creates one Order, with a key no order had and the user of the request as its owner, and for
  every distinct reference of the basket one OrderProduct row of that order, for the product
  the reference names, whose amount is the number of times the basket holds the reference; no
  other row is created. A reference is the string that was sent, so a product that is named
  by two spellings of its key has two rows; when no two references name one product, the
  rows are of distinct products. After it the session has neither the list of references nor
  the cached count.
\<close>

theorem checkout_creates_order_and_lines:
  assumes "session_get_products s \<noteq> []" and "validate form = []"
    and "\<forall>k \<in> set (session_get_products s). product_row py_int d k \<noteq> None"
  shows "\<exists>out ob refs rows.
           BasketView_post py_int validate now d s u form = Inr out \<and>
           out_response out = Redirect index_url \<and>
           order_tbl (out_db out) = order_tbl d @ [ob] \<and>
           user ob = Some (user_pk u) \<and>
           order_pk ob \<notin> set (map order_pk (order_tbl d)) \<and>
           order_product_tbl (out_db out) = order_product_tbl d @ rows \<and>
           distinct refs \<and> set refs = set (session_get_products s) \<and>
           rows = map (\<lambda>k. \<lparr>product_id = the (py_int k), order_id = order_pk ob,
                              amount = int (count_list (session_get_products s) k)\<rparr>) refs \<and>
           (inj_on py_int (set (session_get_products s)) \<longrightarrow> distinct (map product_id rows)) \<and>
           product_tbl (out_db out) = product_tbl d \<and>
           products (out_session out) = None \<and>
           products_count (out_session out) = None \<and>
           session_get_products (out_session out) = []"
proof -
  let ?ps = "session_get_products s"
  define totals where "totals = fold tally_step ?ps []"
  define ob where "ob = snd (form_save now d u form)"
  define d1 where "d1 = fst (form_save now d u form)"
  define refs where "refs = map fst totals"
  define rows where
    "rows = map (\<lambda>k. \<lparr>product_id = the (py_int k), order_id = order_pk ob,
                        amount = int (count_list ?ps k)\<rparr>) refs"
  define out where
    "out = \<lparr>out_db = d1\<lparr>order_product_tbl := order_product_tbl d1 @ rows\<rparr>,
            out_session = BasketView_clean_basket s,
            out_messages = [order_placed], out_response = Redirect index_url\<rparr>"
  have gt: "BasketView_get_totals s = Inr totals"
    by (simp add: get_totals_eq totals_def)
  note te = totals_entries [OF gt]
  have d1: "order_tbl d1 = order_tbl d @ [ob]" "order_product_tbl d1 = order_product_tbl d"
    "product_tbl d1 = product_tbl d"
    by (simp_all add: d1_def ob_def form_save_def Let_def)
  have owner: "user ob = Some (user_pk u)"
    by (simp add: ob_def form_save_def Let_def)
  have fresh: "order_pk ob \<notin> set (map order_pk (order_tbl d))"
    using next_order_pk_fresh [of d] by (simp add: ob_def form_save_def Let_def)
  have "map (\<lambda>(k, q). \<lparr>product_id = the (py_int k), order_id = order_pk ob, amount = q\<rparr>)
      totals = rows"
    using te(3) by (auto simp: rows_def refs_def case_prod_beta)
  moreover have "\<forall>e \<in> set totals. product_row py_int d1 (fst e) \<noteq> None"
  proof
    fix e assume "e \<in> set totals"
    then have "fst e \<in> set (map fst totals)" by (auto intro: rev_image_eqI)
    then have "fst e \<in> set ?ps" by (simp only: te(2))
    with assms(3) have "product_row py_int d (fst e) \<noteq> None" by blast
    then show "product_row py_int d1 (fst e) \<noteq> None"
      by (simp add: product_row_def d1(3) split: option.splits)
  qed
  ultimately have "save_loop py_int totals ob d1 =
      Inr (d1\<lparr>order_product_tbl := order_product_tbl d1 @ rows\<rparr>)"
    using save_loop_tbl [of totals py_int d1 ob] by simp
  then have post: "BasketView_post py_int validate now d s u form = Inr out"
    using assms(1,2) gt
    by (simp add: BasketView_post_def BasketView_form_valid_def BasketView_basket_empty_def
          BasketView_save_order_products_def out_def ob_def d1_def case_prod_beta Let_def)
  have tbl: "order_tbl (out_db out) = order_tbl d @ [ob]"
    "order_product_tbl (out_db out) = order_product_tbl d @ rows"
    "product_tbl (out_db out) = product_tbl d"
    "out_response out = Redirect index_url"
    by (simp_all add: out_def d1)
  have refs: "distinct refs" "set refs = set ?ps"
    using te(1,2) by (simp_all add: refs_def)
  have inj: "distinct (map product_id rows)" if "inj_on py_int (set ?ps)"
  proof -
    have "inj_on (\<lambda>k. the (py_int k)) (set refs)"
    proof (rule inj_onI)
      fix j k assume jk: "j \<in> set refs" "k \<in> set refs" "the (py_int j) = the (py_int k)"
      with assms(3) refs(2) have "py_int j \<noteq> None" "py_int k \<noteq> None"
        by (auto simp: product_row_def split: option.splits)
      with jk(3) have "py_int j = py_int k" by auto
      with that jk(1,2) refs(2) show "j = k" by (auto dest: inj_onD)
    qed
    with refs(1) show ?thesis
      by (simp add: rows_def comp_def distinct_map)
  qed
  have sess: "products (out_session out) = None" "products_count (out_session out) = None"
    "session_get_products (out_session out) = []"
    using clean_basket_keys [of s] by (simp_all add: out_def session_get_products_def)
  from post tbl owner fresh refs inj sess rows_def show ?thesis by blast
qed

theorem checkout_creates_order_and_lines_witness:
  "session_get_products basket773 \<noteq> [] \<and> needs_first_name contact = [] \<and>
   product_row decimal_int shop ''7'' = Some pizza \<and>
   product_row decimal_int shop ''3'' = Some cola \<and>
   inj_on decimal_int {''7'', ''3''} \<and>
   (\<exists>out ob. BasketView_post decimal_int needs_first_name 5 shop basket773 customer contact =
        Inr out \<and>
      order_tbl (out_db out) = [ob] \<and>
      order_product_tbl (out_db out) =
        [\<lparr>product_id = 7, order_id = order_pk ob, amount = 2\<rparr>,
         \<lparr>product_id = 3, order_id = order_pk ob, amount = 1\<rparr>] \<and>
      out_session out = \<lparr>products = None, products_count = None\<rparr>)"
  using checkout_creates_order_and_lines [of basket773 needs_first_name contact decimal_int
      shop 5 customer]
  by (simp add: shop_simps)

text \<open>
  The claim as the specification states it fails. The basket that holds product 7 as \<open>7\<close> and
  as \<open>07\<close> gives two rows of amount 1 for product 7, not one row of amount 2. The basket
  that holds a reference to the key 8, which has no row, gives an error when its line is
  stored: the Order and the line of product 7 are stored by then, and the basket is not
  cleaned.
\<close>

theorem checkout_lines_counterexample:
  "BasketView_post decimal_int needs_first_name 5 shop
       \<lparr>products = Some [''7'', ''07''], products_count = Some 2\<rparr> customer contact =
     Inr \<lparr>out_db = shop\<lparr>order_tbl := [order_at 1 1 5],
             order_product_tbl := [\<lparr>product_id = 7, order_id = 1, amount = 1\<rparr>,
                                   \<lparr>product_id = 7, order_id = 1, amount = 1\<rparr>]\<rparr>,
          out_session = \<lparr>products = None, products_count = None\<rparr>,
          out_messages = [order_placed], out_response = Redirect ''/''\<rparr> \<and>
   BasketView_post decimal_int needs_first_name 5 shop
       \<lparr>products = Some [''7'', ''8''], products_count = Some 2\<rparr> customer contact =
     Inl (IntegrityError,
          shop\<lparr>order_tbl := [order_at 1 1 5],
               order_product_tbl := [\<lparr>product_id = 7, order_id = 1, amount = 1\<rparr>]\<rparr>) \<and>
   session_after \<lparr>products = Some [''7'', ''8''], products_count = Some 2\<rparr>
       (BasketView_post decimal_int needs_first_name 5 shop
          \<lparr>products = Some [''7'', ''8''], products_count = Some 2\<rparr> customer contact) =
     \<lparr>products = Some [''7'', ''8''], products_count = Some 2\<rparr>"
  by (simp add: shop_simps)

text \<open>
  Claim C2. A checkout with an empty basket shows the form again with an error (the error
  of the empty basket when the input itself is valid) and leaves the tables and the session as
  they were: no Order and no OrderProduct row is created.
\<close>

theorem empty_basket_checkout_rejected:
  assumes "session_get_products s = []"
  shows "\<exists>errors. errors \<noteq> [] \<and>
           errors = (if validate form = [] then [empty_basket_error] else validate form) \<and>
           BasketView_post py_int validate now d s u form =
             Inr \<lparr>out_db = d, out_session = s, out_messages = [],
                  out_response = RenderForm errors [] 0\<rparr>"
  using assms prepare_empty [OF assms, of py_int d]
  by (simp add: BasketView_post_def BasketView_form_valid_def BasketView_basket_empty_def
        form_invalid_def Let_def)

theorem empty_basket_checkout_rejected_witness:
  "session_get_products empty_session = [] \<and>
   BasketView_post decimal_int needs_first_name 5 shop empty_session customer contact =
     Inr \<lparr>out_db = shop, out_session = empty_session, out_messages = [],
          out_response = RenderForm [empty_basket_error] [] 0\<rparr>"
  using empty_basket_checkout_rejected [of empty_session needs_first_name contact decimal_int
      5 shop customer]
  by (simp add: shop_simps)

text \<open>
  Claim C8. A checkout whose form fails its validation goes to \<^verbatim>\<open>form_invalid\<close>, whatever
  the basket holds: the page of the form is rendered with the errors of the validation, or
  the request ends in the error of \<^verbatim>\<open>_prepare_basket\<close> when the basket cannot be shown. In
  both cases the tables are as they were, so no OrderProduct row is created, and the session
  is as it was, so the basket is not cleared.
\<close>

theorem rejected_form_writes_nothing:
  assumes "validate form \<noteq> []"
  shows "BasketView_post py_int validate now d s u form =
           (case BasketView_prepare_basket py_int d s of
              Inl e \<Rightarrow> Inl (e, d)
            | Inr (basket, basket_total) \<Rightarrow>
                Inr \<lparr>out_db = d, out_session = s, out_messages = [],
                     out_response = RenderForm (validate form) basket basket_total\<rparr>) \<and>
         db_after (BasketView_post py_int validate now d s u form) = d \<and>
         session_after s (BasketView_post py_int validate now d s u form) = s"
  using assms
  by (auto simp: BasketView_post_def form_invalid_def Let_def db_after_def session_after_def
        split: sum.splits)

theorem rejected_form_writes_nothing_witness:
  "needs_first_name (contact\<lparr>form_first_name := []\<rparr>) \<noteq> [] \<and>
   session_get_products basket773 \<noteq> [] \<and>
   BasketView_post decimal_int needs_first_name 5 shop basket773 customer
       (contact\<lparr>form_first_name := []\<rparr>) =
     Inr \<lparr>out_db = shop, out_session = basket773, out_messages = [],
          out_response = RenderForm [''first_name is required'']
            [\<lparr>line_product = pizza, qty = 2, total = 2000\<rparr>,
             \<lparr>line_product = cola, qty = 1, total = 500\<rparr>] 2500\<rparr> \<and>
   BasketView_post decimal_int needs_first_name 5 (shop\<lparr>product_tbl := [3 \<mapsto> cola]\<rparr>)
       basket773 customer (contact\<lparr>form_first_name := []\<rparr>) =
     Inl (DoesNotExist, shop\<lparr>product_tbl := [3 \<mapsto> cola]\<rparr>)"
  using rejected_form_writes_nothing [of needs_first_name "contact\<lparr>form_first_name := []\<rparr>"
      decimal_int 5 shop basket773 customer]
    rejected_form_writes_nothing [of needs_first_name "contact\<lparr>form_first_name := []\<rparr>"
      decimal_int 5 "shop\<lparr>product_tbl := [3 \<mapsto> cola]\<rparr>" basket773 customer]
  by (simp add: shop_simps)

section \<open>The quantities of the basket\<close>

text \<open>
  Claim C3, as amended. The quantities are those of references: a reference is the string a
  request sent as \<open>pk\<close>, and an \<open>Add\<close> and a \<open>Remove\<close> concern one reference when they sent
  the same string (two spellings of one key, as \<open>7\<close> and \<open>07\<close>, are two references). After a
  sequence of \<open>Add\<close> and \<open>Remove\<close> requests on an empty basket, the quantity
  \<^verbatim>\<open>_get_totals\<close> gives a reference is the one the requests give one after the other: an
  \<open>Add\<close> of the reference adds 1 when its product can be bought, a \<open>Remove\<close> of the reference
  takes 1 away and stops at 0. It is never negative. It is the number of \<open>Add\<close> calls less
  the number of \<open>Remove\<close> calls of the reference when every \<open>Remove\<close> of it came while the
  basket held it and its \<open>Add\<close> calls, if any, were of a product that can be bought.
\<close>

theorem basket_quantity_replayed:
  assumes "redirect reverse url_scheme (next_url None) = Inr r0"
  shows "aggregate_qty (run_ops py_int reverse url_scheme d ops empty_session) k =
     Inr (replay_qty (purchasable py_int d) k ops 0) \<and>
   0 \<le> replay_qty (purchasable py_int d) k ops 0 \<and>
   (removes_found (purchasable py_int d) k ops 0 \<and>
    (purchasable py_int d k \<or> count_list ops (Add k) = 0) \<longrightarrow>
      replay_qty (purchasable py_int d) k ops 0 = spec_qty ops k)"
proof -
  have "session_get_products empty_session = []"
    by (simp add: session_get_products_def empty_session_def)
  then have a: "aggregate_qty (run_ops py_int reverse url_scheme d ops empty_session) k =
      Inr (replay_qty (purchasable py_int d) k ops 0)"
    using qty_after_run [OF assms, of py_int d ops empty_session k]
    by (simp add: aggregate_qty_count)
  have b: "0 \<le> replay_qty (purchasable py_int d) k ops 0"
    by (rule replay_qty_nonneg) simp
  have c: "replay_qty (purchasable py_int d) k ops 0 = spec_qty ops k"
    if "removes_found (purchasable py_int d) k ops 0"
      and "purchasable py_int d k \<or> count_list ops (Add k) = 0"
    using replay_qty_found [OF that] b by (simp add: spec_qty_def)
  from a b c show ?thesis by blast
qed

theorem basket_quantity_replayed_witness:
  "redirect webapp_reverse path_scheme (next_url None) = Inr (Redirect ''/'') \<and>
   removes_found (purchasable decimal_int shop) ''7'' [Add ''7'', Add ''7'', Remove ''7''] 0 \<and>
   purchasable decimal_int shop ''7'' \<and>
   aggregate_qty (run_ops decimal_int webapp_reverse path_scheme shop
     [Add ''7'', Add ''7'', Remove ''7''] empty_session) ''7'' = Inr 1 \<and>
   spec_qty [Add ''7'', Add ''7'', Remove ''7''] ''7'' = 1"
  using basket_quantity_replayed [of webapp_reverse path_scheme "Redirect ''/''" decimal_int
      shop "[Add ''7'', Add ''7'', Remove ''7'']" "''7''"]
  by (simp add: shop_simps)

text \<open>
  The claim as the specification states it fails: a \<open>Remove\<close> on the empty basket changes
  nothing, and the \<open>Add\<close> after it leaves the quantity 1, where the difference of the
  numbers of calls, stopped at 0, is 0.
\<close>

theorem basket_quantity_counterexample:
  "aggregate_qty (run_ops decimal_int webapp_reverse path_scheme shop [Remove ''7'', Add ''7'']
     empty_session) ''7'' = Inr 1 \<and>
   spec_qty [Remove ''7'', Add ''7''] ''7'' = 0"
  by (simp add: shop_simps)

text \<open>
  Claim C10. A basket change that is answered stores the list and, as the count, its length.
  A checkout that is answered with the redirect, which is the one that has placed the order,
  leaves the session with neither of the two keys; one that shows the form again leaves the
  session as it was. So along every sequence of basket changes and checkouts the count, when
  the session has one, is the length of the list.
\<close>

theorem cached_count_is_length:
  "(BasketChangeView_get py_int reverse url_scheme d s pk action nxt = Inr (s', r) \<longrightarrow>
      products_count s' = Some (int (length (session_get_products s'))) \<and>
      products s' = Some (session_get_products s')) \<and>
   (BasketView_post py_int validate now d s u form = Inr out \<and>
    out_response out = Redirect url \<longrightarrow>
      products (out_session out) = None \<and> products_count (out_session out) = None) \<and>
   (BasketView_post py_int validate now d s u form = Inr out \<and>
    out_response out = RenderForm errors b t \<longrightarrow>
      out_session out = s) \<and>
   products (BasketView_clean_basket s) = None \<and>
   products_count (BasketView_clean_basket s) = None \<and>
   (count_matches s \<longrightarrow>
      count_matches (snd (foldl (serve py_int reverse url_scheme validate) (d, s) reqs)))"
proof (intro conjI impI)
  assume "BasketChangeView_get py_int reverse url_scheme d s pk action nxt = Inr (s', r)"
  from products_after_change [OF this]
  show "products_count s' = Some (int (length (session_get_products s')))"
    and "products s' = Some (session_get_products s')"
    by simp_all
next
  assume h: "BasketView_post py_int validate now d s u form = Inr out \<and>
    out_response out = Redirect url"
  then have "out_session out = BasketView_clean_basket s"
    using post_redirect by blast
  then show "products (out_session out) = None" and "products_count (out_session out) = None"
    using clean_basket_keys [of s] by simp_all
next
  assume "BasketView_post py_int validate now d s u form = Inr out \<and>
    out_response out = RenderForm errors b t"
  then show "out_session out = s"
    using post_render by blast
next
  show "products (BasketView_clean_basket s) = None"
    and "products_count (BasketView_clean_basket s) = None"
    using clean_basket_keys [of s] by simp_all
next
  assume "count_matches s"
  then show "count_matches (snd (foldl (serve py_int reverse url_scheme validate) (d, s) reqs))"
    using count_matches_foldl [of "(d, s)" py_int reverse url_scheme validate reqs] by simp
qed

theorem cached_count_is_length_witness:
  "BasketChangeView_get decimal_int webapp_reverse path_scheme shop basket773 (Some ''3'')
       (Some ''remove'') None =
     Inr (\<lparr>products = Some [''7'', ''7''], products_count = Some 2\<rparr>, Redirect ''/'') \<and>
   BasketView_post decimal_int needs_first_name 5 shop basket773 customer contact =
     Inr \<lparr>out_db = shop\<lparr>order_tbl := [order_at 1 1 5],
             order_product_tbl := [\<lparr>product_id = 7, order_id = 1, amount = 2\<rparr>,
                                   \<lparr>product_id = 3, order_id = 1, amount = 1\<rparr>]\<rparr>,
          out_session = \<lparr>products = None, products_count = None\<rparr>,
          out_messages = [order_placed], out_response = Redirect ''/''\<rparr> \<and>
   BasketView_post decimal_int needs_first_name 5 shop basket773 customer
       (contact\<lparr>form_first_name := []\<rparr>) =
     Inr \<lparr>out_db = shop, out_session = basket773, out_messages = [],
          out_response = RenderForm [''first_name is required'']
            [\<lparr>line_product = pizza, qty = 2, total = 2000\<rparr>,
             \<lparr>line_product = cola, qty = 1, total = 500\<rparr>] 2500\<rparr> \<and>
   count_matches empty_session \<and>
   count_matches (snd (foldl (serve decimal_int webapp_reverse path_scheme needs_first_name)
     (shop, empty_session)
     [Change (Some ''7'') (Some ''add'') None, Checkout 5 customer contact]))"
  using cached_count_is_length [of decimal_int webapp_reverse path_scheme shop basket773 "Some ''3''"
      "Some ''remove''" None "\<lparr>products = Some [''7'', ''7''], products_count = Some 2\<rparr>"
      "Redirect ''/''" needs_first_name 5 customer contact
      "\<lparr>out_db = shop\<lparr>order_tbl := [order_at 1 1 5],
             order_product_tbl := [\<lparr>product_id = 7, order_id = 1, amount = 2\<rparr>,
                                   \<lparr>product_id = 3, order_id = 1, amount = 1\<rparr>]\<rparr>,
          out_session = \<lparr>products = None, products_count = None\<rparr>,
          out_messages = [order_placed], out_response = Redirect ''/''\<rparr>" "''/''"]
    cached_count_is_length [of decimal_int webapp_reverse path_scheme shop basket773 None None None
      basket773 "Redirect ''/''" needs_first_name 5 customer
      "contact\<lparr>form_first_name := []\<rparr>"
      "\<lparr>out_db = shop, out_session = basket773, out_messages = [],
          out_response = RenderForm [''first_name is required'']
            [\<lparr>line_product = pizza, qty = 2, total = 2000\<rparr>,
             \<lparr>line_product = cola, qty = 1, total = 500\<rparr>] 2500\<rparr>" "''/''"
      "[''first_name is required'']"
      "[\<lparr>line_product = pizza, qty = 2, total = 2000\<rparr>,
        \<lparr>line_product = cola, qty = 1, total = 500\<rparr>]" 2500]
    cached_count_is_length [of decimal_int webapp_reverse path_scheme shop empty_session None None None
      empty_session "Redirect ''/''" needs_first_name 5 customer contact
      "\<lparr>out_db = shop, out_session = empty_session, out_messages = [],
          out_response = Redirect ''/''\<rparr>" "''/''" "[]" "[]" 0
      "[Change (Some ''7'') (Some ''add'') None, Checkout 5 customer contact]"]
  by (simp add: shop_simps)




section \<open>The totals of the basket\<close>

text \<open>
  Claim C5. When every reference of the basket names a row, \<^verbatim>\<open>_prepare_basket\<close> returns
  one line for each item of the totals, with the row found now, and a grand total that is the
  sum over the items of the price of that row times the quantity; that is the sum over the
  distinct references of the price times the number of times the basket holds the reference.
\<close>

theorem prepare_basket_grand_total:
  assumes "\<forall>k \<in> set (session_get_products s). product_row py_int d k \<noteq> None"
  shows "\<exists>basket totals.
           BasketView_get_totals s = Inr totals \<and>
           BasketView_prepare_basket py_int d s =
             Inr (basket,
                  sum_list (map (\<lambda>(k, q). price (the (product_row py_int d k)) * q) totals)) \<and>
           map (\<lambda>l. (line_product l, qty l, total l)) basket =
             map (\<lambda>(k, q). (the (product_row py_int d k), q,
                              price (the (product_row py_int d k)) * q)) totals \<and>
           sum_list (map (\<lambda>(k, q). price (the (product_row py_int d k)) * q) totals) =
             (\<Sum>k \<in> set (session_get_products s).
                price (the (product_row py_int d k)) * int (count_list (session_get_products s) k))"
proof -
  let ?ps = "session_get_products s"
  let ?g = "\<lambda>(k, q). price (the (product_row py_int d k)) * q"
  define totals where "totals = fold tally_step ?ps []"
  have gt: "BasketView_get_totals s = Inr totals"
    by (simp add: get_totals_eq totals_def)
  note te = totals_entries [OF gt]
  from assms te(2) have rows: "\<forall>e \<in> set totals. product_row py_int d (fst e) \<noteq> None"
    by force
  have prep: "BasketView_prepare_basket py_int d s =
      Inr (map (\<lambda>(k, q). \<lparr>line_product = the (product_row py_int d k), qty = q,
                  total = price (the (product_row py_int d k)) * q\<rparr>) totals,
           sum_list (map ?g totals))"
    by (simp add: BasketView_prepare_basket_def gt prepare_loop_total [OF rows])
  have lines: "map (\<lambda>l. (line_product l, qty l, total l))
      (map (\<lambda>(k, q). \<lparr>line_product = the (product_row py_int d k), qty = q,
                  total = price (the (product_row py_int d k)) * q\<rparr>) totals) =
      map (\<lambda>(k, q). (the (product_row py_int d k), q,
                       price (the (product_row py_int d k)) * q)) totals"
    by (simp add: case_prod_beta comp_def)
  let ?h = "\<lambda>k. price (the (product_row py_int d k)) * int (count_list ?ps k)"
  have a: "map ?g totals = map ?h (map fst totals)"
    using te(3) by (auto simp: case_prod_beta)
  have "sum_list (map ?g totals) = sum_list (map ?h (map fst totals))"
    by (simp only: a)
  also have "\<dots> = sum ?h (set (map fst totals))"
    by (rule sum_list_distinct_conv_sum_set [OF te(1)])
  also have "\<dots> = sum ?h (set ?ps)"
    by (simp only: te(2))
  finally have sum: "sum_list (map ?g totals) = sum ?h (set ?ps)" .
  from gt prep lines sum show ?thesis by blast
qed

theorem prepare_basket_grand_total_witness:
  "product_row decimal_int shop ''7'' = Some pizza \<and>
   product_row decimal_int shop ''3'' = Some cola \<and>
   (\<exists>basket. BasketView_prepare_basket decimal_int shop basket773 = Inr (basket, 2500))"
  using prepare_basket_grand_total [of basket773 decimal_int shop]
  by (simp add: shop_simps)

text \<open>
  Claim C6, as amended. When a reference of the basket names a key that has no row any more,
  \<^verbatim>\<open>_prepare_basket\<close> raises \<^verbatim>\<open>DoesNotExist\<close> and returns no basket at all (every
  reference of a basket converts to a key, since an \<open>Add\<close> has looked it up). The delete of
  the product view keeps the row, so it does not make the computation fail: the totals that
  were computed before it are computed after it, with the same grand total.
\<close>

theorem prepare_basket_missing_row:
  "((\<forall>j \<in> set (session_get_products s). py_int j \<noteq> None) \<and>
    k \<in> set (session_get_products s) \<and> product_row py_int d k = None \<longrightarrow>
      BasketView_prepare_basket py_int d s = Inl DoesNotExist) \<and>
   (ProductDeleteView_delete d i = Inr (d', r) \<and>
    BasketView_prepare_basket py_int d s = Inr (b, g) \<longrightarrow>
      (\<exists>b'. BasketView_prepare_basket py_int d' s = Inr (b', g)))"
proof (intro conjI impI)
  assume h: "(\<forall>j \<in> set (session_get_products s). py_int j \<noteq> None) \<and>
    k \<in> set (session_get_products s) \<and> product_row py_int d k = None"
  obtain totals where gt: "BasketView_get_totals s = Inr totals"
    by (simp add: get_totals_eq)
  note te = totals_entries [OF gt]
  from h te(2) have "\<forall>e \<in> set totals. py_int (fst e) \<noteq> None" by force
  moreover from h te(2) have "\<exists>e \<in> set totals. product_row py_int d (fst e) = None" by force
  ultimately show "BasketView_prepare_basket py_int d s = Inl DoesNotExist"
    by (simp add: BasketView_prepare_basket_def gt prepare_loop_missing)
next
  assume h: "ProductDeleteView_delete d i = Inr (d', r) \<and>
    BasketView_prepare_basket py_int d s = Inr (b, g)"
  then have "\<forall>j. map_option price (product_tbl d' j) = map_option price (product_tbl d j)"
    by (auto simp: ProductDeleteView_delete_def split: option.splits)
  moreover obtain totals where gt: "BasketView_get_totals s = Inr totals"
    by (simp add: get_totals_eq)
  ultimately show "\<exists>b'. BasketView_prepare_basket py_int d' s = Inr (b', g)"
    using h prepare_loop_same_prices [of d' d py_int totals "[]" 0 b g "[]"]
    by (simp add: BasketView_prepare_basket_def)
qed

theorem prepare_basket_missing_row_witness:
  "product_row decimal_int (shop\<lparr>product_tbl := [3 \<mapsto> cola]\<rparr>) ''7'' = None \<and>
   decimal_int ''7'' = Some 7 \<and> decimal_int ''3'' = Some 3 \<and>
   BasketView_prepare_basket decimal_int (shop\<lparr>product_tbl := [3 \<mapsto> cola]\<rparr>) basket773 =
     Inl DoesNotExist \<and>
   ProductDeleteView_delete shop 3 =
     Inr (shop\<lparr>product_tbl := (product_tbl shop)(3 \<mapsto> cola\<lparr>in_order := False\<rparr>)\<rparr>,
          Redirect ''/'') \<and>
   (\<exists>b'. BasketView_prepare_basket decimal_int
       (shop\<lparr>product_tbl := (product_tbl shop)(3 \<mapsto> cola\<lparr>in_order := False\<rparr>)\<rparr>) basket773 =
     Inr (b', 2500))"
  using prepare_basket_missing_row [of basket773 decimal_int "''7''"
      "shop\<lparr>product_tbl := [3 \<mapsto> cola]\<rparr>" 3 "shop\<lparr>product_tbl := [3 \<mapsto> cola]\<rparr>" "Redirect ''/''"
      "[]" 0]
    prepare_basket_missing_row [of basket773 decimal_int "''7''" shop 3
      "shop\<lparr>product_tbl := (product_tbl shop)(3 \<mapsto> cola\<lparr>in_order := False\<rparr>)\<rparr>" "Redirect ''/''"
      "[\<lparr>line_product = pizza, qty = 2, total = 2000\<rparr>,
        \<lparr>line_product = cola, qty = 1, total = 500\<rparr>]" 2500]
  by (simp add: shop_simps)

text \<open>
  The claim as the specification states it fails for a product that is deleted by the view:
  product 7 is put into the basket and then deleted, and the totals are computed all the same.
\<close>

theorem prepare_basket_soft_deleted_counterexample:
  "BasketChangeView_get decimal_int webapp_reverse path_scheme shop empty_session (Some ''7'')
       (Some ''add'') None =
     Inr (\<lparr>products = Some [''7''], products_count = Some 1\<rparr>, Redirect ''/'') \<and>
   ProductDeleteView_delete shop 7 =
     Inr (shop\<lparr>product_tbl := (product_tbl shop)(7 \<mapsto> pizza\<lparr>in_order := False\<rparr>)\<rparr>,
          Redirect ''/'') \<and>
   BasketView_prepare_basket decimal_int
       (shop\<lparr>product_tbl := (product_tbl shop)(7 \<mapsto> pizza\<lparr>in_order := False\<rparr>)\<rparr>)
       \<lparr>products = Some [''7''], products_count = Some 1\<rparr> =
     Inr ([\<lparr>line_product = pizza\<lparr>in_order := False\<rparr>, qty = 1, total = 1000\<rparr>], 1000)"
  by (simp add: shop_simps)

section \<open>Deleting a product\<close>

text \<open>
  Claim C9. The delete of a product that has a row clears the flag \<open>in_order\<close> of that row
  and changes nothing else: the row is kept with its other fields, the other rows and the
  other tables are as they were.
\<close>

theorem product_delete_is_soft:
  assumes "product_tbl d pk = Some p"
  shows "\<exists>d'. ProductDeleteView_delete d pk = Inr (d', Redirect ''/'') \<and>
           product_tbl d' pk = Some (p\<lparr>in_order := False\<rparr>) \<and>
           (\<forall>j. j \<noteq> pk \<longrightarrow> product_tbl d' j = product_tbl d j) \<and>
           dom (product_tbl d') = dom (product_tbl d) \<and>
           order_tbl d' = order_tbl d \<and> order_product_tbl d' = order_product_tbl d"
  using assms by (auto simp: ProductDeleteView_delete_def)

theorem product_delete_is_soft_witness:
  "product_tbl shop 7 = Some pizza \<and>
   (\<exists>d'. ProductDeleteView_delete shop 7 = Inr (d', Redirect ''/'') \<and>
      product_tbl d' 7 =
        Some \<lparr>name = ''pizza'', category = ''food'', price = 1000, photo = ''p.png'',
              in_order = False\<rparr> \<and>
      product_tbl d' 3 = Some cola \<and> dom (product_tbl d') = {3, 7})"
  using product_delete_is_soft [of shop 7 pizza]
  by (auto simp: shop_simps)

section \<open>The list of orders\<close>

text \<open>
  Claim C4. For a user without the permission \<^verbatim>\<open>webapp.view_order\<close> the query is
  \<^verbatim>\<open>user.orders.all()\<close>, with no \<^verbatim>\<open>order_by\<close>: where the model has no default order the
  rows come as the table has them, and the two orders of user 1 are listed with the older one
  first. For the manager the same table is listed by falling time of creation.
\<close>

theorem order_list_unsorted_for_owner:
  "map created_at (OrderListView_get_queryset (\<lambda>rows. rows) three_orders customer) = [10, 20] \<and>
   map created_at (OrderListView_get_queryset (\<lambda>rows. rows) three_orders manager) = [30, 20, 10]"
  by (simp add: shop_simps)

end
